theory Spec2Isabelle
  imports Complex_Main
begin

section \<open>The embedding service (embedding-service/main.py)\<close>

text \<open>
  The service is one module: a process-wide variable \<open>model\<close>, a startup hook that
  fills it, and three request handlers. The handlers are modelled as functions from the
  module state and the request to an outcome that records the state after the call, the
  calls made to the model's \<open>encode\<close>, and what the handler returns or raises.
\<close>

subsection \<open>Data\<close>

text \<open>
  Modelled from the spec: the array type that \<open>encode\<close> returns is numpy's and is not
  part of the repository. The spec says that encode "returns one fixed-length numeric
  vector per input string", so the array is a matrix: a number of rows, a number of
  columns and an element for every position. The service performs no arithmetic on the
  elements; it only passes them on.
\<close>

datatype ndarray = NDArray (nrows: nat) (ncols: nat) (elem: "nat \<Rightarrow> nat \<Rightarrow> real")

definition tolist :: "ndarray \<Rightarrow> real list list" where
  "tolist a = map (\<lambda>i. map (\<lambda>j. elem a i j) [0..<ncols a]) [0..<nrows a]"

text \<open>
  The loaded model is used through \<open>encode(texts, normalize_embeddings=...)\<close> only.
  A call either raises an exception \<open>e\<close> (an instance of \<open>Exception\<close>, which is what
  the handler's \<open>except\<close> clause catches), kept as \<open>str(e)\<close> on the left, or returns
  an array.
\<close>

type_synonym sentence_transformer = "string list \<Rightarrow> bool \<Rightarrow> string + ndarray"

text \<open>The module state: \<open>model: Optional[SentenceTransformer] = None\<close>.\<close>

record service_state =
  model :: "sentence_transformer option"

definition initial_state :: service_state where
  "initial_state = \<lparr>model = None\<rparr>"

definition MODEL_NAME :: string where
  "MODEL_NAME = ''all-MiniLM-L6-v2''"

text \<open>\<open>class EmbeddingRequest(BaseModel)\<close>: \<open>texts: List[str]\<close>, \<open>normalize: bool = True\<close>.\<close>

record embedding_request =
  texts :: "string list"
  normalize :: bool

text \<open>
  The constructor of the request class. A field the request body leaves out is \<open>None\<close>
  here, and \<open>normalize\<close> then takes the default of the class.
\<close>

definition EmbeddingRequest :: "string list \<Rightarrow> bool option \<Rightarrow> embedding_request" where
  "EmbeddingRequest ts nz =
     \<lparr>texts = ts, normalize = (case nz of None \<Rightarrow> True | Some b \<Rightarrow> b)\<rparr>"

text \<open>
  \<open>class EmbeddingResponse(BaseModel)\<close>. Its field \<open>model\<close> is \<open>model_name\<close> here:
  \<open>model\<close> is the module variable.
\<close>

record embedding_response =
  embeddings :: "real list list"
  model_name :: string
  dimensions :: int

text \<open>\<open>HTTPException(status_code=..., detail=...)\<close>.\<close>

datatype http_exception = HTTPException (status_code: int) (detail: string)

text \<open>The values of the dictionaries that \<open>health_check\<close> and \<open>root\<close> return.\<close>

datatype json = JStr string | JBool bool | JInt int | JObj "(string \<times> json) list"

text \<open>What a handler call leaves behind.\<close>

record 'a outcome =
  state_after :: service_state
  encode_calls :: "(string list \<times> bool) list"
  result :: 'a

definition rejected_with :: "int \<Rightarrow> (http_exception + 'a) outcome \<Rightarrow> bool" where
  "rejected_with code out = (case result out of Inl e \<Rightarrow> status_code e = code | Inr _ \<Rightarrow> False)"

subsection \<open>Startup\<close>

text \<open>
  \<open>load_model\<close> constructs \<open>SentenceTransformer(MODEL_NAME)\<close> and assigns it to
  \<open>model\<close>; an exception of the constructor is logged and raised again, before the
  assignment. The constructor belongs to the library and is a parameter.
\<close>

definition load_model ::
  "(string \<Rightarrow> string + sentence_transformer) \<Rightarrow> service_state \<Rightarrow> string + service_state" where
  "load_model SentenceTransformer st =
     (case SentenceTransformer MODEL_NAME of
        Inl e \<Rightarrow> Inl e
      | Inr m \<Rightarrow> Inr (st\<lparr>model := Some m\<rparr>))"

subsection \<open>Handlers\<close>

definition health_check :: "service_state \<Rightarrow> (string \<times> json) list outcome" where
  "health_check st =
     \<lparr>state_after = st, encode_calls = [],
      result = [(''status'', JStr ''healthy''),
                (''model'', JStr MODEL_NAME),
                (''model_loaded'', JBool (model st \<noteq> None))]\<rparr>"

definition generate_embeddings ::
  "service_state \<Rightarrow> embedding_request \<Rightarrow> (http_exception + embedding_response) outcome" where
  "generate_embeddings st request =
     (case model st of
        None \<Rightarrow>
          \<lparr>state_after = st, encode_calls = [],
           result = Inl (HTTPException 503 ''Model not loaded'')\<rparr>
      | Some m \<Rightarrow>
          if texts request = [] then
            \<lparr>state_after = st, encode_calls = [],
             result = Inl (HTTPException 400 ''No texts provided'')\<rparr>
          else if length (texts request) > 100 then
            \<lparr>state_after = st, encode_calls = [],
             result = Inl (HTTPException 400 ''Maximum 100 texts per request'')\<rparr>
          else
            (case m (texts request) (normalize request) of
               Inl e \<Rightarrow>
                 \<lparr>state_after = st,
                  encode_calls = [(texts request, normalize request)],
                  result = Inl (HTTPException 500 e)\<rparr>
             | Inr embeddings_array \<Rightarrow>
                 let embeddings_list = tolist embeddings_array in
                 \<lparr>state_after = st,
                  encode_calls = [(texts request, normalize request)],
                  result = Inr \<lparr>embeddings = embeddings_list,
                                model_name = MODEL_NAME,
                                dimensions = (if embeddings_list \<noteq> []
                                              then int (length (embeddings_list ! 0))
                                              else 0)\<rparr>\<rparr>))"

definition root :: "service_state \<Rightarrow> (string \<times> json) list outcome" where
  "root st =
     \<lparr>state_after = st, encode_calls = [],
      result = [(''service'', JStr ''ProjectHub Embedding Service''),
                (''model'', JStr MODEL_NAME),
                (''dimensions'', JInt 384),
                (''endpoints'', JObj [(''health'', JStr ''/health''),
                                      (''embed'', JStr ''/embed (POST)''),
                                      (''docs'', JStr ''/docs'')])]\<rparr>"

subsection \<open>Stub models\<close>

text \<open>
  The model is reached through \<open>encode\<close> alone, so a test can put a stub in its place.
  \<open>stub_encode\<close> embeds each text by its length; \<open>failing_encode\<close> raises on every call.
\<close>

definition stub_embed :: "string \<Rightarrow> real list" where
  "stub_embed t = [real (length t), 1]"

definition stub_encode :: sentence_transformer where
  "stub_encode ts nz = Inr (NDArray (length ts) 2 (\<lambda>i j. stub_embed (ts ! i) ! j))"

definition failing_encode :: sentence_transformer where
  "failing_encode ts nz = Inl ''CUDA out of memory''"

definition stub_constructor :: "string \<Rightarrow> string + sentence_transformer" where
  "stub_constructor name = Inr stub_encode"

definition loaded_state :: service_state where
  "loaded_state = \<lparr>model = Some stub_encode\<rparr>"

definition failing_state :: service_state where
  "failing_state = \<lparr>model = Some failing_encode\<rparr>"

definition two_texts :: "string list" where
  "two_texts = [''ab'', ''c'']"

subsection \<open>Normalisation\<close>

text \<open>
  Modelled from the spec: the L2 norm and the normalisation are the library's, inside
  \<open>encode(..., normalize_embeddings=True)\<close>, and not part of the repository. The spec's
  glossary has "Normalization: scaling a vector to unit L2 length", and its \<open>encode\<close>
  "returns one fixed-length numeric vector per input string, optionally L2-normalized".
  \<open>normalizing_encode emb d\<close> is that operation for a text embedding \<open>emb\<close> of dimension
  \<open>d\<close>: it never raises, and it scales each vector when the flag is set.
\<close>

definition l2norm :: "real list \<Rightarrow> real" where
  "l2norm v = sqrt (sum_list (map (\<lambda>x. x * x) v))"

definition l2_normalize :: "real list \<Rightarrow> real list" where
  "l2_normalize v = map (\<lambda>x. x / l2norm v) v"

definition normalizing_encode :: "(string \<Rightarrow> real list) \<Rightarrow> nat \<Rightarrow> sentence_transformer" where
  "normalizing_encode emb d ts nz =
     Inr (NDArray (length ts) d
            (\<lambda>i j. (if nz then l2_normalize (emb (ts ! i)) else emb (ts ! i)) ! j))"

text \<open>A stub with two text embeddings of whole-numbered norm, 5 and 13.\<close>

definition triple_embed :: "string \<Rightarrow> real list" where
  "triple_embed t = (if even (length t) then [3, 4] else [5, 12])"

definition normalizing_state :: service_state where
  "normalizing_state = \<lparr>model = Some (normalizing_encode triple_embed 2)\<rparr>"

section \<open>Properties\<close>

subsection \<open>The array and its list\<close>

lemma length_tolist: "length (tolist a) = nrows a"
  by (simp add: tolist_def)

lemma tolist_row_length: "v \<in> set (tolist a) \<Longrightarrow> length v = ncols a"
  by (auto simp: tolist_def)

lemma tolist_Nil_iff: "tolist a = [] \<longleftrightarrow> nrows a = 0"
  by (simp add: tolist_def)

lemma tolist_stub_two:
  "tolist (NDArray 2 2 (\<lambda>i j. stub_embed (two_texts ! i) ! j)) = [[2, 1], [1, 1]]"
  by (simp add: tolist_def two_texts_def stub_embed_def upt_conv_Cons numeral_2_eq_2)

lemma stub_two: "stub_encode two_texts True = Inr (NDArray 2 2 (\<lambda>i j. stub_embed (two_texts ! i) ! j))"
  by (simp add: stub_encode_def two_texts_def)

subsection \<open>The norm of a normalised vector\<close>

lemma sum_squares_nonneg: "0 \<le> sum_list (map (\<lambda>x::real. x * x) v)"
  by (induction v) auto

lemma sum_squares_scaled:
  "sum_list (map (\<lambda>x::real. x * x) (map (\<lambda>x. x / c) v)) =
     sum_list (map (\<lambda>x. x * x) v) / (c * c)"
  by (induction v) (auto simp: add_divide_distrib)

lemma l2norm_l2_normalize:
  assumes "l2norm v \<noteq> 0"
  shows "l2norm (l2_normalize v) = 1"
proof -
  let ?s = "sum_list (map (\<lambda>x. x * x) v)"
  have s: "0 \<le> ?s" by (rule sum_squares_nonneg)
  from assms have nz: "?s \<noteq> 0" by (simp add: l2norm_def)
  have sq: "l2norm v * l2norm v = ?s" using s by (simp add: l2norm_def)
  have "sum_list (map (\<lambda>x. x * x) (l2_normalize v)) = ?s / (l2norm v * l2norm v)"
    unfolding l2_normalize_def by (rule sum_squares_scaled)
  also have "\<dots> = 1" using nz by (simp add: sq)
  finally show ?thesis by (simp add: l2norm_def)
qed

lemma length_l2_normalize: "length (l2_normalize v) = length v"
  by (simp add: l2_normalize_def)

lemma tolist_rows:
  assumes "\<forall>i < n. length (f i) = d"
  shows "tolist (NDArray n d (\<lambda>i j. f i ! j)) = map f [0..<n]"
  using assms by (auto simp: tolist_def intro!: nth_equalityI)

lemma tolist_normalizing_encode:
  assumes "\<forall>t \<in> set ts. length (emb t) = d"
    and "normalizing_encode emb d ts nz = Inr a"
  shows "tolist a = map (\<lambda>t. if nz then l2_normalize (emb t) else emb t) ts"
proof -
  let ?f = "\<lambda>t. if nz then l2_normalize (emb t) else emb t"
  from assms(2) have a: "a = NDArray (length ts) d (\<lambda>i j. ?f (ts ! i) ! j)"
    by (auto simp: normalizing_encode_def)
  have "\<forall>i < length ts. length (?f (ts ! i)) = d"
    using assms(1) by (simp add: length_l2_normalize)
  then have "tolist a = map (\<lambda>i. ?f (ts ! i)) [0..<length ts]"
    unfolding a by (rule tolist_rows)
  also have "\<dots> = map ?f ts"
    by (rule nth_equalityI) simp_all
  finally show ?thesis .
qed

lemma normalizing_encode_unit_rows:
  assumes "\<forall>t \<in> set ts. length (emb t) = d \<and> l2norm (emb t) \<noteq> 0"
    and "normalizing_encode emb d ts True = Inr a"
    and "v \<in> set (tolist a)"
  shows "l2norm v = 1"
proof -
  from assms(1) have "\<forall>t \<in> set ts. length (emb t) = d" by blast
  from tolist_normalizing_encode [OF this assms(2)]
  have "tolist a = map (\<lambda>t. l2_normalize (emb t)) ts" by simp
  with assms(3) obtain t where "t \<in> set ts" and "v = l2_normalize (emb t)" by auto
  with assms(1) show ?thesis by (simp add: l2norm_l2_normalize)
qed

lemma l2norm_3_4: "l2norm [3, 4] = 5"
proof -
  have "sqrt 25 = 5" by (rule real_sqrt_unique) simp_all
  then show ?thesis by (simp add: l2norm_def)
qed

lemma l2norm_5_12: "l2norm [5, 12] = 13"
proof -
  have "sqrt 169 = 13" by (rule real_sqrt_unique) simp_all
  then show ?thesis by (simp add: l2norm_def)
qed

lemma tolist_triple_two:
  "tolist (NDArray 2 2 (\<lambda>i j. l2_normalize (triple_embed (two_texts ! i)) ! j)) =
     [[3 / 5, 4 / 5], [5 / 13, 12 / 13]]"
  by (simp add: tolist_def two_texts_def triple_embed_def l2_normalize_def
        l2norm_3_4 l2norm_5_12 upt_conv_Cons numeral_2_eq_2)

lemma normalizing_encode_two:
  "normalizing_encode triple_embed 2 two_texts True =
     Inr (NDArray 2 2 (\<lambda>i j. l2_normalize (triple_embed (two_texts ! i)) ! j))"
  by (simp add: normalizing_encode_def two_texts_def)

lemma normalizing_encode_two_raw:
  "tolist (projr (normalizing_encode triple_embed 2 two_texts False)) = [[3, 4], [5, 12]]"
  by (simp add: normalizing_encode_def tolist_def two_texts_def triple_embed_def
        upt_conv_Cons numeral_2_eq_2)

subsection \<open>The paths through \<open>generate_embeddings\<close>\<close>

lemma generate_embeddings_not_loaded:
  "model st = None \<Longrightarrow> generate_embeddings st request =
     \<lparr>state_after = st, encode_calls = [],
      result = Inl (HTTPException 503 ''Model not loaded'')\<rparr>"
  by (simp add: generate_embeddings_def)

lemma generate_embeddings_no_texts:
  "model st = Some m \<Longrightarrow> texts request = [] \<Longrightarrow> generate_embeddings st request =
     \<lparr>state_after = st, encode_calls = [],
      result = Inl (HTTPException 400 ''No texts provided'')\<rparr>"
  by (simp add: generate_embeddings_def)

lemma generate_embeddings_too_many:
  "model st = Some m \<Longrightarrow> length (texts request) > 100 \<Longrightarrow> generate_embeddings st request =
     \<lparr>state_after = st, encode_calls = [],
      result = Inl (HTTPException 400 ''Maximum 100 texts per request'')\<rparr>"
  by (auto simp: generate_embeddings_def)

lemma generate_embeddings_encode_raises:
  assumes "model st = Some m" "texts request \<noteq> []" "length (texts request) \<le> 100"
    and "m (texts request) (normalize request) = Inl msg"
  shows "generate_embeddings st request =
           \<lparr>state_after = st, encode_calls = [(texts request, normalize request)],
            result = Inl (HTTPException 500 msg)\<rparr>"
  using assms by (simp add: generate_embeddings_def)

lemma generate_embeddings_success:
  assumes "model st = Some m" "texts request \<noteq> []" "length (texts request) \<le> 100"
    and "m (texts request) (normalize request) = Inr a"
  shows "generate_embeddings st request =
           \<lparr>state_after = st, encode_calls = [(texts request, normalize request)],
            result = Inr \<lparr>embeddings = tolist a, model_name = MODEL_NAME,
                          dimensions = (if tolist a \<noteq> [] then int (length (tolist a ! 0)) else 0)\<rparr>\<rparr>"
  using assms by (simp add: generate_embeddings_def Let_def)

lemma generate_embeddings_Inr_D:
  assumes "result (generate_embeddings st request) = Inr resp"
  obtains m a where "model st = Some m" "texts request \<noteq> []" "length (texts request) \<le> 100"
    "m (texts request) (normalize request) = Inr a"
    "resp = \<lparr>embeddings = tolist a, model_name = MODEL_NAME,
              dimensions = (if tolist a \<noteq> [] then int (length (tolist a ! 0)) else 0)\<rparr>"
  using assms
  by (auto simp: generate_embeddings_def Let_def split: option.splits if_splits sum.splits)

lemma rejected_503_iff:
  "rejected_with 503 (generate_embeddings st request) \<longleftrightarrow> model st = None"
  by (simp add: generate_embeddings_def rejected_with_def Let_def
           split: option.splits sum.splits)

lemma rejected_400_iff:
  "model st = Some m \<Longrightarrow>
   rejected_with 400 (generate_embeddings st request) \<longleftrightarrow>
     texts request = [] \<or> length (texts request) > 100"
  by (simp add: generate_embeddings_def rejected_with_def Let_def split: sum.splits)

lemma rejected_no_encode:
  "rejected_with 503 (generate_embeddings st request) \<or>
   rejected_with 400 (generate_embeddings st request) \<Longrightarrow>
   encode_calls (generate_embeddings st request) = []"
  by (auto simp: generate_embeddings_def rejected_with_def Let_def
           split: option.splits sum.splits if_splits)

lemma accepted_encode_once:
  "model st = Some m \<Longrightarrow> texts request \<noteq> [] \<Longrightarrow> length (texts request) \<le> 100 \<Longrightarrow>
   encode_calls (generate_embeddings st request) = [(texts request, normalize request)]"
  by (simp add: generate_embeddings_def Let_def split: sum.splits)

lemma load_model_sets_model:
  "load_model ctor st = Inr st' \<Longrightarrow> model st' \<noteq> None"
  by (auto simp: load_model_def split: sum.splits)

subsection \<open>The claims of the specification\<close>

text \<open>
  C1. With the model loaded and between 1 and 100 texts, and an \<open>encode\<close> that returns
  the vector of each text in the order of the texts (row \<open>i\<close> of the array is \<open>emb\<close> of
  text \<open>i\<close>), the handler answers with a response whose \<open>embeddings\<close> are those vectors,
  one per text, in the same order.
\<close>

theorem embed_one_vector_per_text:
  assumes "model st = Some m"
    and "texts request \<noteq> []" and "length (texts request) \<le> 100"
    and "m (texts request) (normalize request) = Inr a"
    and "tolist a = map emb (texts request)"
  shows "\<exists>resp. result (generate_embeddings st request) = Inr resp \<and>
           embeddings resp = map emb (texts request) \<and>
           length (embeddings resp) = length (texts request)"
  using assms by (simp add: generate_embeddings_success)

theorem embed_one_vector_per_text_witness:
  "model loaded_state = Some stub_encode \<and>
   texts (EmbeddingRequest two_texts None) \<noteq> [] \<and>
   length (texts (EmbeddingRequest two_texts None)) \<le> 100 \<and>
   stub_encode (texts (EmbeddingRequest two_texts None))
     (normalize (EmbeddingRequest two_texts None)) =
     Inr (NDArray 2 2 (\<lambda>i j. stub_embed (two_texts ! i) ! j)) \<and>
   tolist (NDArray 2 2 (\<lambda>i j. stub_embed (two_texts ! i) ! j)) =
     map stub_embed (texts (EmbeddingRequest two_texts None)) \<and>
   (\<exists>resp. result (generate_embeddings loaded_state (EmbeddingRequest two_texts None)) = Inr resp \<and>
      embeddings resp = [[2, 1], [1, 1]] \<and> length (embeddings resp) = 2)"
proof -
  let ?r = "EmbeddingRequest two_texts None"
  have 1: "model loaded_state = Some stub_encode" by (simp add: loaded_state_def)
  have 2: "texts ?r \<noteq> []" by (simp add: EmbeddingRequest_def two_texts_def)
  have 3: "length (texts ?r) \<le> 100" by (simp add: EmbeddingRequest_def two_texts_def)
  have 4: "stub_encode (texts ?r) (normalize ?r) = Inr (NDArray 2 2 (\<lambda>i j. stub_embed (two_texts ! i) ! j))"
    by (simp add: EmbeddingRequest_def stub_two)
  have 5: "tolist (NDArray 2 2 (\<lambda>i j. stub_embed (two_texts ! i) ! j)) = map stub_embed (texts ?r)"
    by (simp add: tolist_stub_two) (simp add: EmbeddingRequest_def two_texts_def stub_embed_def)
  from embed_one_vector_per_text [OF 1 2 3 4 5]
  have 6: "\<exists>resp. result (generate_embeddings loaded_state ?r) = Inr resp \<and>
      embeddings resp = [[2, 1], [1, 1]] \<and> length (embeddings resp) = 2"
    by (auto simp: EmbeddingRequest_def two_texts_def stub_embed_def)
  from 1 2 3 4 5 6 show ?thesis by blast
qed

text \<open>
  C2. The handler raises 503 exactly when the model is not loaded. With the model loaded
  it raises 400 exactly when the texts are empty or more than 100, so 100 texts pass.
  Without a model the answer is 503 whatever the texts are, and a request answered with
  503 or 400 has made no call to \<open>encode\<close>.
\<close>

theorem embed_rejection_statuses:
  "(rejected_with 503 (generate_embeddings st request) \<longleftrightarrow> model st = None) \<and>
   (model st \<noteq> None \<longrightarrow>
      (rejected_with 400 (generate_embeddings st request) \<longleftrightarrow>
         texts request = [] \<or> length (texts request) > 100)) \<and>
   (model st = None \<longrightarrow> \<not> rejected_with 400 (generate_embeddings st request)) \<and>
   (model st \<noteq> None \<and> length (texts request) = 100 \<longrightarrow>
      \<not> rejected_with 503 (generate_embeddings st request) \<and>
      \<not> rejected_with 400 (generate_embeddings st request) \<and>
      encode_calls (generate_embeddings st request) = [(texts request, normalize request)]) \<and>
   (rejected_with 503 (generate_embeddings st request) \<or>
    rejected_with 400 (generate_embeddings st request) \<longrightarrow>
      encode_calls (generate_embeddings st request) = [])"
proof (intro conjI impI)
  show "rejected_with 503 (generate_embeddings st request) \<longleftrightarrow> model st = None"
    by (rule rejected_503_iff)
next
  assume "model st \<noteq> None"
  then obtain m where "model st = Some m" by auto
  then show "rejected_with 400 (generate_embeddings st request) \<longleftrightarrow>
      texts request = [] \<or> length (texts request) > 100"
    by (rule rejected_400_iff)
next
  assume "model st = None"
  then show "\<not> rejected_with 400 (generate_embeddings st request)"
    by (simp add: generate_embeddings_not_loaded rejected_with_def)
next
  assume a: "model st \<noteq> None \<and> length (texts request) = 100"
  then obtain m where m: "model st = Some m" by auto
  from a have ne: "texts request \<noteq> []" and le: "length (texts request) \<le> 100" by auto
  from a show "\<not> rejected_with 503 (generate_embeddings st request)"
    by (simp add: rejected_503_iff)
  from ne le show "\<not> rejected_with 400 (generate_embeddings st request)"
    by (simp add: rejected_400_iff [OF m])
  from m ne le show "encode_calls (generate_embeddings st request) =
      [(texts request, normalize request)]"
    by (rule accepted_encode_once)
next
  assume "rejected_with 503 (generate_embeddings st request) \<or>
    rejected_with 400 (generate_embeddings st request)"
  then show "encode_calls (generate_embeddings st request) = []"
    by (rule rejected_no_encode)
qed

theorem embed_rejection_statuses_witness:
  "model loaded_state \<noteq> None \<and>
   length (texts \<lparr>texts = replicate 100 ''a'', normalize = True\<rparr>) = 100 \<and>
   \<not> rejected_with 503
       (generate_embeddings loaded_state \<lparr>texts = replicate 100 ''a'', normalize = True\<rparr>) \<and>
   \<not> rejected_with 400
       (generate_embeddings loaded_state \<lparr>texts = replicate 100 ''a'', normalize = True\<rparr>) \<and>
   encode_calls
       (generate_embeddings loaded_state \<lparr>texts = replicate 100 ''a'', normalize = True\<rparr>) =
     [(replicate 100 ''a'', True)] \<and>
   rejected_with 400
       (generate_embeddings loaded_state \<lparr>texts = replicate 101 ''a'', normalize = True\<rparr>) \<and>
   encode_calls
       (generate_embeddings loaded_state \<lparr>texts = replicate 101 ''a'', normalize = True\<rparr>) = [] \<and>
   rejected_with 400 (generate_embeddings loaded_state \<lparr>texts = [], normalize = True\<rparr>) \<and>
   model initial_state = None \<and>
   rejected_with 503 (generate_embeddings initial_state \<lparr>texts = [], normalize = True\<rparr>) \<and>
   \<not> rejected_with 400 (generate_embeddings initial_state \<lparr>texts = [], normalize = True\<rparr>) \<and>
   encode_calls (generate_embeddings initial_state \<lparr>texts = [], normalize = True\<rparr>) = []"
proof -
  have l: "model loaded_state \<noteq> None" by (simp add: loaded_state_def)
  have i: "model initial_state = None" by (simp add: initial_state_def)
  note a = embed_rejection_statuses
    [of loaded_state "\<lparr>texts = replicate 100 ''a'', normalize = True\<rparr>"]
  note b = embed_rejection_statuses
    [of loaded_state "\<lparr>texts = replicate 101 ''a'', normalize = True\<rparr>"]
  note c = embed_rejection_statuses [of loaded_state "\<lparr>texts = [], normalize = True\<rparr>"]
  note d = embed_rejection_statuses [of initial_state "\<lparr>texts = [], normalize = True\<rparr>"]
  from a l have "\<not> rejected_with 503
       (generate_embeddings loaded_state \<lparr>texts = replicate 100 ''a'', normalize = True\<rparr>) \<and>
   \<not> rejected_with 400
       (generate_embeddings loaded_state \<lparr>texts = replicate 100 ''a'', normalize = True\<rparr>) \<and>
   encode_calls
       (generate_embeddings loaded_state \<lparr>texts = replicate 100 ''a'', normalize = True\<rparr>) =
     [(replicate 100 ''a'', True)]" by simp
  moreover from b l have b': "rejected_with 400
       (generate_embeddings loaded_state \<lparr>texts = replicate 101 ''a'', normalize = True\<rparr>)"
    by simp
  moreover from b b' have "encode_calls
       (generate_embeddings loaded_state \<lparr>texts = replicate 101 ''a'', normalize = True\<rparr>) = []"
    by blast
  moreover from c l have
    "rejected_with 400 (generate_embeddings loaded_state \<lparr>texts = [], normalize = True\<rparr>)"
    by simp
  moreover from d i have d': 
    "rejected_with 503 (generate_embeddings initial_state \<lparr>texts = [], normalize = True\<rparr>)"
    "\<not> rejected_with 400 (generate_embeddings initial_state \<lparr>texts = [], normalize = True\<rparr>)"
    by simp_all
  moreover from d d' have
    "encode_calls (generate_embeddings initial_state \<lparr>texts = [], normalize = True\<rparr>) = []"
    by blast
  ultimately show ?thesis using l i by simp
qed

text \<open>
  C3. In every response the handler returns, all vectors have the same length, and
  \<open>dimensions\<close> is the length of the first vector, or 0 for an empty list.
\<close>

theorem embed_vectors_same_length:
  assumes "result (generate_embeddings st request) = Inr resp"
  shows "(\<forall>v \<in> set (embeddings resp). \<forall>w \<in> set (embeddings resp). length v = length w) \<and>
         (\<forall>v \<in> set (embeddings resp). int (length v) = dimensions resp) \<and>
         dimensions resp =
           (if embeddings resp = [] then 0 else int (length (embeddings resp ! 0)))"
proof -
  from assms obtain m a where "model st = Some m" and
    resp: "resp = \<lparr>embeddings = tolist a, model_name = MODEL_NAME,
              dimensions = (if tolist a \<noteq> [] then int (length (tolist a ! 0)) else 0)\<rparr>"
    by (rule generate_embeddings_Inr_D)
  have rows: "length v = ncols a" if "v \<in> set (tolist a)" for v
    using that by (rule tolist_row_length)
  have first: "length (tolist a ! 0) = ncols a" if "tolist a \<noteq> []"
    using that by (intro rows) simp
  show ?thesis
    using rows first by (auto simp: resp)
qed

theorem embed_vectors_same_length_witness:
  "result (generate_embeddings loaded_state \<lparr>texts = two_texts, normalize = False\<rparr>) =
     Inr \<lparr>embeddings = [[2, 1], [1, 1]], model_name = MODEL_NAME, dimensions = 2\<rparr> \<and>
   length [2, 1 :: real] = length [1, 1 :: real] \<and>
   int (length [2, 1 :: real]) = dimensions \<lparr>embeddings = [[2, 1], [1, 1]], model_name = MODEL_NAME, dimensions = 2\<rparr> \<and>
   dimensions \<lparr>embeddings = [[2, 1], [1, 1]], model_name = MODEL_NAME, dimensions = 2\<rparr> =
     int (length ([[2, 1], [1, 1 :: real]] ! 0))"
proof -
  have r: "result (generate_embeddings loaded_state \<lparr>texts = two_texts, normalize = False\<rparr>) =
     Inr \<lparr>embeddings = [[2, 1], [1, 1]], model_name = MODEL_NAME, dimensions = 2\<rparr>"
    by (simp add: generate_embeddings_def loaded_state_def stub_encode_def Let_def
          tolist_def two_texts_def stub_embed_def upt_conv_Cons numeral_2_eq_2)
  from embed_vectors_same_length [OF r] r show ?thesis by simp
qed

text \<open>
  C4. When a request passes validation and \<open>encode\<close> raises, the handler raises 500
  with the message of that exception as detail, returns no response, and leaves the
  module state as it was.
\<close>

theorem embed_encode_failure:
  assumes "model st = Some m"
    and "texts request \<noteq> []" and "length (texts request) \<le> 100"
    and "m (texts request) (normalize request) = Inl msg"
  shows "result (generate_embeddings st request) = Inl (HTTPException 500 msg) \<and>
         (\<forall>resp. result (generate_embeddings st request) \<noteq> Inr resp) \<and>
         state_after (generate_embeddings st request) = st"
  using assms by (simp add: generate_embeddings_encode_raises)

theorem embed_encode_failure_witness:
  "model failing_state = Some failing_encode \<and>
   texts \<lparr>texts = two_texts, normalize = True\<rparr> \<noteq> [] \<and>
   length (texts \<lparr>texts = two_texts, normalize = True\<rparr>) \<le> 100 \<and>
   failing_encode (texts \<lparr>texts = two_texts, normalize = True\<rparr>)
     (normalize \<lparr>texts = two_texts, normalize = True\<rparr>) = Inl ''CUDA out of memory'' \<and>
   result (generate_embeddings failing_state \<lparr>texts = two_texts, normalize = True\<rparr>) =
     Inl (HTTPException 500 ''CUDA out of memory'') \<and>
   state_after (generate_embeddings failing_state \<lparr>texts = two_texts, normalize = True\<rparr>) =
     failing_state"
proof -
  let ?r = "\<lparr>texts = two_texts, normalize = True\<rparr>"
  have 1: "model failing_state = Some failing_encode" by (simp add: failing_state_def)
  have 2: "texts ?r \<noteq> []" by (simp add: two_texts_def)
  have 3: "length (texts ?r) \<le> 100" by (simp add: two_texts_def)
  have 4: "failing_encode (texts ?r) (normalize ?r) = Inl ''CUDA out of memory''"
    by (simp add: failing_encode_def)
  from embed_encode_failure [OF 1 2 3 4] 1 2 3 4 show ?thesis by simp
qed

text \<open>
  C5. For a request that passes validation with \<open>normalize\<close> set, when \<open>encode\<close> with
  the flag set returns vectors whose L2 norm is within a tolerance \<open>eps\<close> of 1, the
  handler answers with exactly those vectors, so every returned vector has L2 norm within
  \<open>eps\<close> of 1. The spec's normalising \<open>encode\<close> returns such vectors for every tolerance
  (lemma \<open>normalizing_encode_unit_rows\<close>).
\<close>

theorem embed_normalized_unit_norm:
  assumes "model st = Some m"
    and "texts request \<noteq> []" and "length (texts request) \<le> 100"
    and "normalize request"
    and "m (texts request) True = Inr a"
    and "\<forall>v \<in> set (tolist a). \<bar>l2norm v - 1\<bar> \<le> eps"
  shows "\<exists>resp. result (generate_embeddings st request) = Inr resp \<and>
           embeddings resp = tolist a \<and>
           (\<forall>v \<in> set (embeddings resp). \<bar>l2norm v - 1\<bar> \<le> eps)"
proof -
  from assms(4,5) have "m (texts request) (normalize request) = Inr a" by simp
  with assms(1-3) have
    "result (generate_embeddings st request) =
       Inr \<lparr>embeddings = tolist a, model_name = MODEL_NAME,
            dimensions = (if tolist a \<noteq> [] then int (length (tolist a ! 0)) else 0)\<rparr>"
    by (simp add: generate_embeddings_success)
  with assms(6) show ?thesis by simp
qed

theorem embed_normalized_unit_norm_witness:
  "model normalizing_state = Some (normalizing_encode triple_embed 2) \<and>
   texts \<lparr>texts = two_texts, normalize = True\<rparr> \<noteq> [] \<and>
   length (texts \<lparr>texts = two_texts, normalize = True\<rparr>) \<le> 100 \<and>
   normalize \<lparr>texts = two_texts, normalize = True\<rparr> \<and>
   normalizing_encode triple_embed 2 (texts \<lparr>texts = two_texts, normalize = True\<rparr>) True =
     Inr (NDArray 2 2 (\<lambda>i j. l2_normalize (triple_embed (two_texts ! i)) ! j)) \<and>
   (\<exists>resp. result (generate_embeddings normalizing_state
              \<lparr>texts = two_texts, normalize = True\<rparr>) = Inr resp \<and>
      embeddings resp = [[3 / 5, 4 / 5], [5 / 13, 12 / 13]] \<and>
      (\<forall>v \<in> set (embeddings resp). \<bar>l2norm v - 1\<bar> \<le> 1 / 1000000))"
proof -
  let ?r = "\<lparr>texts = two_texts, normalize = True\<rparr>"
  let ?a = "NDArray 2 2 (\<lambda>i j. l2_normalize (triple_embed (two_texts ! i)) ! j)"
  have 1: "model normalizing_state = Some (normalizing_encode triple_embed 2)"
    by (simp add: normalizing_state_def)
  have 2: "texts ?r \<noteq> []" by (simp add: two_texts_def)
  have 3: "length (texts ?r) \<le> 100" by (simp add: two_texts_def)
  have 4: "normalize ?r" by simp
  have 5: "normalizing_encode triple_embed 2 (texts ?r) True = Inr ?a"
    by (simp add: normalizing_encode_two)
  have base: "\<forall>t \<in> set (texts ?r). length (triple_embed t) = 2 \<and> l2norm (triple_embed t) \<noteq> 0"
    by (simp add: triple_embed_def l2norm_3_4 l2norm_5_12)
  have 6: "\<forall>v \<in> set (tolist ?a). \<bar>l2norm v - 1\<bar> \<le> 1 / 1000000"
  proof
    fix v assume "v \<in> set (tolist ?a)"
    with base 5 have "l2norm v = 1" by (rule normalizing_encode_unit_rows)
    then show "\<bar>l2norm v - 1\<bar> \<le> 1 / 1000000" by simp
  qed
  from embed_normalized_unit_norm [OF 1 2 3 4 5 6]
  have 7: "\<exists>resp. result (generate_embeddings normalizing_state ?r) = Inr resp \<and>
      embeddings resp = [[3 / 5, 4 / 5], [5 / 13, 12 / 13]] \<and>
      (\<forall>v \<in> set (embeddings resp). \<bar>l2norm v - 1\<bar> \<le> 1 / 1000000)"
    by (simp only: tolist_triple_two)
  from 1 2 3 4 5 7 show ?thesis by blast
qed

text \<open>
  C6. The \<open>model_loaded\<close> entry of the health response says whether \<open>model\<close> is set:
  false in the initial state, true in the state a successful \<open>load_model\<close> leaves.
\<close>

theorem health_reports_model_loaded:
  "map_of (result (health_check st)) ''model_loaded'' = Some (JBool (model st \<noteq> None)) \<and>
   map_of (result (health_check initial_state)) ''model_loaded'' = Some (JBool False) \<and>
   (load_model ctor initial_state = Inr st' \<longrightarrow>
      map_of (result (health_check st')) ''model_loaded'' = Some (JBool True))"
  by (auto simp: health_check_def initial_state_def dest: load_model_sets_model)

theorem health_reports_model_loaded_witness:
  "load_model stub_constructor initial_state = Inr loaded_state \<and>
   map_of (result (health_check loaded_state)) ''model_loaded'' = Some (JBool True) \<and>
   map_of (result (health_check initial_state)) ''model_loaded'' = Some (JBool False)"
proof -
  have l: "load_model stub_constructor initial_state = Inr loaded_state"
    by (simp add: load_model_def stub_constructor_def initial_state_def loaded_state_def)
  have m: "model loaded_state \<noteq> None" by (simp add: loaded_state_def)
  from health_reports_model_loaded [of loaded_state stub_constructor loaded_state] l m
  show ?thesis by simp
qed

text \<open>
  C7. A request built without \<open>normalize\<close> has \<open>normalize = True\<close>. Every call to
  \<open>encode\<close> made for it passes \<open>True\<close>, a request that passes validation makes exactly
  that one call, and what the handler then returns or raises is what \<open>encode\<close> gives for
  the texts with the flag \<open>True\<close>: its array as the response, or its exception as a 500.
\<close>

theorem embed_normalize_default:
  "normalize (EmbeddingRequest ts None) = True \<and>
   (\<forall>call \<in> set (encode_calls (generate_embeddings st (EmbeddingRequest ts None))).
      call = (ts, True)) \<and>
   (model st \<noteq> None \<and> ts \<noteq> [] \<and> length ts \<le> 100 \<longrightarrow>
      encode_calls (generate_embeddings st (EmbeddingRequest ts None)) = [(ts, True)]) \<and>
   (model st = Some m \<and> ts \<noteq> [] \<and> length ts \<le> 100 \<longrightarrow>
      result (generate_embeddings st (EmbeddingRequest ts None)) =
        (case m ts True of
           Inl e \<Rightarrow> Inl (HTTPException 500 e)
         | Inr a \<Rightarrow>
             Inr \<lparr>embeddings = tolist a, model_name = MODEL_NAME,
                  dimensions = (if tolist a \<noteq> [] then int (length (tolist a ! 0)) else 0)\<rparr>))"
  by (auto simp: EmbeddingRequest_def generate_embeddings_def Let_def
           split: option.splits sum.splits if_splits)

theorem embed_normalize_default_witness:
  "model normalizing_state = Some (normalizing_encode triple_embed 2) \<and>
   two_texts \<noteq> [] \<and> length two_texts \<le> 100 \<and>
   normalize (EmbeddingRequest two_texts None) = True \<and>
   encode_calls (generate_embeddings normalizing_state (EmbeddingRequest two_texts None)) =
     [(two_texts, True)] \<and>
   result (generate_embeddings normalizing_state (EmbeddingRequest two_texts None)) =
     Inr \<lparr>embeddings = [[3 / 5, 4 / 5], [5 / 13, 12 / 13]], model_name = MODEL_NAME,
          dimensions = 2\<rparr> \<and>
   tolist (projr (normalizing_encode triple_embed 2 two_texts False)) = [[3, 4], [5, 12]]"
proof -
  let ?m = "normalizing_encode triple_embed 2"
  have 1: "model normalizing_state = Some ?m" by (simp add: normalizing_state_def)
  then have ld: "model normalizing_state \<noteq> None" by simp
  have 2: "two_texts \<noteq> []" "length two_texts \<le> 100" by (simp_all add: two_texts_def)
  note d = embed_normalize_default [of two_texts normalizing_state ?m]
  from d have n: "normalize (EmbeddingRequest two_texts None) = True" by (rule conjunct1)
  from d ld 2 have c:
    "encode_calls (generate_embeddings normalizing_state (EmbeddingRequest two_texts None)) =
       [(two_texts, True)]"
    by blast
  from d 1 2 have
    "result (generate_embeddings normalizing_state (EmbeddingRequest two_texts None)) =
       (case ?m two_texts True of
          Inl e \<Rightarrow> Inl (HTTPException 500 e)
        | Inr a \<Rightarrow>
            Inr \<lparr>embeddings = tolist a, model_name = MODEL_NAME,
                 dimensions = (if tolist a \<noteq> [] then int (length (tolist a ! 0)) else 0)\<rparr>)"
    by blast
  then have r:
    "result (generate_embeddings normalizing_state (EmbeddingRequest two_texts None)) =
       Inr \<lparr>embeddings = [[3 / 5, 4 / 5], [5 / 13, 12 / 13]], model_name = MODEL_NAME,
            dimensions = 2\<rparr>"
    by (simp add: normalizing_encode_two tolist_triple_two)
  from 1 2 n c r normalizing_encode_two_raw show ?thesis by blast
qed

text \<open>
  C8. None of the three handlers changes the module state: the state after the call is
  the state before it.
\<close>

theorem handlers_leave_model:
  "state_after (generate_embeddings st request) = st \<and>
   state_after (health_check st) = st \<and>
   state_after (root st) = st"
  by (simp add: generate_embeddings_def health_check_def root_def Let_def
        split: option.splits sum.splits)

text \<open>
  C9. The \<open>status\<close> entry of the health response is \<open>healthy\<close> in every state, also in
  the initial one, where \<open>model_loaded\<close> is false.
\<close>

theorem health_status_always_healthy:
  "map_of (result (health_check st)) ''status'' = Some (JStr ''healthy'') \<and>
   map_of (result (health_check initial_state)) ''status'' = Some (JStr ''healthy'') \<and>
   map_of (result (health_check initial_state)) ''model_loaded'' = Some (JBool False)"
  by (simp add: health_check_def initial_state_def)

text \<open>
  C10. When the handler builds a response and \<open>encode\<close> has returned one row per text,
  the list of embeddings is not empty, so \<open>dimensions\<close> is computed by the first branch,
  the length of the first vector.
\<close>

theorem embed_dimensions_branch:
  assumes "result (generate_embeddings st request) = Inr resp"
    and "model st = Some m"
    and "m (texts request) (normalize request) = Inr a"
    and "nrows a = length (texts request)"
  shows "embeddings resp \<noteq> [] \<and> dimensions resp = int (length (embeddings resp ! 0))"
proof -
  from assms(1) obtain m' a' where
    ne: "texts request \<noteq> []" and m': "model st = Some m'"
    and a': "m' (texts request) (normalize request) = Inr a'"
    and resp: "resp = \<lparr>embeddings = tolist a', model_name = MODEL_NAME,
              dimensions = (if tolist a' \<noteq> [] then int (length (tolist a' ! 0)) else 0)\<rparr>"
    by (rule generate_embeddings_Inr_D)
  from m' a' assms(2,3) have "a' = a" by simp
  with ne assms(4) have "tolist a' \<noteq> []" by (simp add: tolist_Nil_iff)
  then show ?thesis by (simp add: resp)
qed

theorem embed_dimensions_branch_witness:
  "result (generate_embeddings loaded_state \<lparr>texts = [''hello''], normalize = True\<rparr>) =
     Inr \<lparr>embeddings = [[5, 1]], model_name = MODEL_NAME, dimensions = 2\<rparr> \<and>
   model loaded_state = Some stub_encode \<and>
   stub_encode [''hello''] True = Inr (NDArray 1 2 (\<lambda>i j. stub_embed ([''hello''] ! i) ! j)) \<and>
   nrows (NDArray 1 2 (\<lambda>i j. stub_embed ([''hello''] ! i) ! j)) = length [''hello''] \<and>
   embeddings \<lparr>embeddings = [[5, 1]], model_name = MODEL_NAME, dimensions = 2\<rparr> \<noteq> []"
proof -
  let ?r = "\<lparr>texts = [''hello''], normalize = True\<rparr>"
  let ?a = "NDArray 1 2 (\<lambda>i j. stub_embed ([''hello''] ! i) ! j)"
  have 1: "result (generate_embeddings loaded_state ?r) =
     Inr \<lparr>embeddings = [[5, 1]], model_name = MODEL_NAME, dimensions = 2\<rparr>"
    by (simp add: generate_embeddings_def loaded_state_def stub_encode_def Let_def
          tolist_def stub_embed_def upt_conv_Cons numeral_2_eq_2)
  have 2: "model loaded_state = Some stub_encode" by (simp add: loaded_state_def)
  have 3: "stub_encode (texts ?r) (normalize ?r) = Inr ?a" by (simp add: stub_encode_def)
  have 4: "nrows ?a = length (texts ?r)" by simp
  from embed_dimensions_branch [OF 1 2 3 4] 1 2 3 4 show ?thesis by simp
qed

end
